theory Spec2Isabelle
  imports Complex_Main
begin

section \<open>Order and payment reconciliation of the SMS backend\<close>

text \<open>
  A shallow embedding of the admin approval routes for manual orders and the admin's
  refresh of a provider order (\<^verbatim>\<open>src/routes/adminOrders.js\<close>), the admin deposit routes
  (\<^verbatim>\<open>src/unnamed/part_004\<close>), the scheduled order sync job and the user's
  status refresh route (\<^verbatim>\<open>src/jobs/orderSync.js\<close>), over the Mongoose schemas
  of \<^verbatim>\<open>User\<close>, \<^verbatim>\<open>Transaction\<close> and \<^verbatim>\<open>Order\<close>.

  Conventions of the embedding.
  \<^item> A collection is the list of its documents in natural order; \<^verbatim>\<open>findOne\<close> and
    \<^verbatim>\<open>findById\<close> return the first match, \<^verbatim>\<open>save\<close> replaces the document
    carrying the saved \<^verbatim>\<open>_id\<close>.
  \<^item> A JavaScript \<^verbatim>\<open>Number\<close> is an IEEE 754 double: a finite value (a rational)
    or one of the two infinities. Addition and subtraction compute the exact result and
    round it to the nearest double, ties to even, as the language does. \<^verbatim>\<open>NaN\<close> is
    \<open>None\<close> where a conversion or an operation can produce it; a schema field of type
    Number never holds it. The two zeros are one value.
  \<^item> An optional string (a request field, a schema field without default, a field of
    the provider's reply) is a \<open>string option\<close>; \<open>None\<close> is \<^verbatim>\<open>undefined\<close>.
  \<^item> Every handler takes the database and returns its response together with the
    database it leaves behind, so that a handler that throws half way shows the writes
    it had already made. Database calls themselves do not fail, except \<^verbatim>\<open>save\<close>
    through schema validation.
  \<^item> What lies outside the repository (the provider's HTTP API, the mail transport,
    the conversions between strings and numbers of the language) is the environment
    \<open>env\<close>, a parameter of every handler.
\<close>

subsection \<open>Numbers\<close>

datatype number = Finite rat | PlusInfinity | MinusInfinity

text \<open>The number of binary digits of a positive integer.\<close>

function bitLength :: "int \<Rightarrow> int" where
  "bitLength n = (if n \<le> 0 then 0 else 1 + bitLength (n div 2))"
  by pat_completeness auto
termination
  by (relation "measure nat") auto

declare bitLength.simps [simp del]

definition pow2 :: "int \<Rightarrow> rat" where
  "pow2 k = (if 0 \<le> k then 2 ^ nat k else 1 / 2 ^ nat (- k))"

text \<open>
  The binary exponent of a positive rational \<open>a\<close>: the \<open>k\<close> with
  \<open>pow2 k \<le> a < pow2 (k + 1)\<close>.
\<close>

definition exponentBelowOne :: "rat \<Rightarrow> int" where
  "exponentBelowOne a =
     (if a = pow2 (1 - bitLength \<lfloor>1 / a\<rfloor>)
      then 1 - bitLength \<lfloor>1 / a\<rfloor>
      else - bitLength \<lfloor>1 / a\<rfloor>)"

definition exponentOf :: "rat \<Rightarrow> int" where
  "exponentOf a =
     (if 1 \<le> a then bitLength \<lfloor>a\<rfloor> - 1 else exponentBelowOne a)"

text \<open>Rounding to the nearest integer, a tie going to the even one.\<close>

definition roundHalfEven :: "rat \<Rightarrow> int" where
  "roundHalfEven m =
     (if m - of_int \<lfloor>m\<rfloor> < 1 / 2 then \<lfloor>m\<rfloor>
      else if 1 / 2 < m - of_int \<lfloor>m\<rfloor> then \<lfloor>m\<rfloor> + 1
      else if even \<lfloor>m\<rfloor> then \<lfloor>m\<rfloor> else \<lfloor>m\<rfloor> + 1)"

text \<open>
  Doubles carry 53 significant bits, so near \<open>a\<close> they are the multiples of
  \<open>pow2 (exponentOf a - 52)\<close>, and of \<open>pow2 (- 1074)\<close> in the subnormal range.
  \<open>nearest a\<close> is the multiple nearest to a positive \<open>a\<close>.
\<close>

definition quantum :: "rat \<Rightarrow> int" where
  "quantum a = max (exponentOf a - 52) (- 1074)"

definition nearest :: "rat \<Rightarrow> rat" where
  "nearest a = of_int (roundHalfEven (a / pow2 (quantum a))) * pow2 (quantum a)"

text \<open>
  The double that an exact result \<open>x\<close> is stored as: round to nearest, ties to even;
  a magnitude that rounds to \<open>pow2 1024\<close> or beyond overflows to an infinity.
\<close>

definition roundDouble :: "rat \<Rightarrow> number" where
  "roundDouble x =
     (if x = 0 then Finite 0
      else if pow2 1024 \<le> nearest \<bar>x\<bar>
      then (if 0 < x then PlusInfinity else MinusInfinity)
      else Finite (if 0 < x then nearest \<bar>x\<bar> else - nearest \<bar>x\<bar>))"

text \<open>A rational is a double when storing it changes nothing.\<close>

definition isDouble :: "rat \<Rightarrow> bool" where
  "isDouble x = (roundDouble x = Finite x)"

text \<open>\<^verbatim>\<open>a <= b\<close>, \<^verbatim>\<open>a < b\<close>, \<^verbatim>\<open>a + b\<close> and \<^verbatim>\<open>a - b\<close> on Numbers other than NaN.\<close>

fun numLe :: "number \<Rightarrow> number \<Rightarrow> bool" where
  "numLe MinusInfinity b = True"
| "numLe a PlusInfinity = True"
| "numLe (Finite x) (Finite y) = (x \<le> y)"
| "numLe a b = False"

definition numLess :: "number \<Rightarrow> number \<Rightarrow> bool" where
  "numLess a b = (numLe a b \<and> a \<noteq> b)"

fun numAdd :: "number \<Rightarrow> number \<Rightarrow> number option" where
  "numAdd (Finite x) (Finite y) = Some (roundDouble (x + y))"
| "numAdd PlusInfinity MinusInfinity = None"
| "numAdd MinusInfinity PlusInfinity = None"
| "numAdd PlusInfinity b = Some PlusInfinity"
| "numAdd a PlusInfinity = Some PlusInfinity"
| "numAdd MinusInfinity b = Some MinusInfinity"
| "numAdd a MinusInfinity = Some MinusInfinity"

fun numSub :: "number \<Rightarrow> number \<Rightarrow> number option" where
  "numSub (Finite x) (Finite y) = Some (roundDouble (x - y))"
| "numSub PlusInfinity PlusInfinity = None"
| "numSub MinusInfinity MinusInfinity = None"
| "numSub PlusInfinity b = Some PlusInfinity"
| "numSub a MinusInfinity = Some PlusInfinity"
| "numSub MinusInfinity b = Some MinusInfinity"
| "numSub a PlusInfinity = Some MinusInfinity"

subsection \<open>Documents\<close>

type_synonym objectId = string

text \<open>
  \<^verbatim>\<open>src/models/User.js\<close>: the fields the modelled routes read or write. A field name
  that several schemas share carries the schema's initial (\<open>u_id\<close>, \<open>t_id\<close>, \<open>o_id\<close> for
  \<^verbatim>\<open>_id\<close>; \<open>t_status\<close>, \<open>t_userId\<close>, \<open>n_userId\<close>).
\<close>

record user =
  u_id :: objectId
  email :: string
  balance :: number

text \<open>\<^verbatim>\<open>src/models/Transaction.js\<close>: \<^verbatim>\<open>type\<close> and \<^verbatim>\<open>status\<close> are schema enums.\<close>

datatype tx_type = deposit | order_tx | adjustment

datatype tx_status = pending | completed | failed

record transaction =
  t_id :: objectId
  t_userId :: objectId
  t_type :: tx_type
  amount :: number
  t_status :: tx_status
  reference :: "string option"
  rejectReason :: "string option"
  t_orderNumber :: "number option"

text \<open>
  The Order schema (second module of \<^verbatim>\<open>src/unnamed/part_011\<close>): \<^verbatim>\<open>status\<close> is a
  free string with a default, \<^verbatim>\<open>charge\<close> is declared String, \<^verbatim>\<open>provider\<close> is an
  enum.
\<close>

datatype provider = secsers | manual

record order =
  o_id :: objectId
  userId :: objectId
  service :: objectId
  link :: "string option"
  providerOrder :: "number option"
  status :: string
  charge :: "string option"
  currency :: string
  start_count :: "number option"
  remains :: "number option"
  provider :: provider
  adminNotes :: "string option"
  orderNumber :: "number option"

text \<open>
  A notification document. The message text of the source is a template string; the
  embedding keeps the template and the values interpolated into it.
\<close>

datatype message =
    OrderConfirmedMsg "number option"
  | OrderRejectedMsg "number option" "string option"
  | SweepStatusMsg objectId string string
  | RefreshStatusMsg "number option" string string
  | DepositConfirmedMsg number number
  | DepositRejectedMsg number "string option"

record notification =
  n_userId :: objectId
  title :: string
  msg :: message

text \<open>What a handler can throw, and the lines it writes to the console.\<close>

datatype exn =
    TypeError
  | ValidationError string
  | ProviderError string
  | MailError

datatype console_line =
    SyncStarted
  | OrderUpdated objectId string string
  | OrderUpdateFailed objectId exn
  | MailFailed exn
  | RouteError exn

record db =
  orders :: "order list"
  users :: "user list"
  transactions :: "transaction list"
  notifications :: "notification list"
  console :: "console_line list"

text \<open>
  The reply of the provider to a status request, with the fields the job and the refresh
  route read from it; every field may be absent.
\<close>

record snapshot =
  st_status :: "string option"
  st_charge :: "string option"
  st_start_count :: "string option"
  st_remains :: "string option"
  st_currency :: "string option"

text \<open>
  The environment. \<open>secsers_status\<close> is the HTTP round trip behind
  \<^verbatim>\<open>secsers.status\<close> (\<^verbatim>\<open>utils/secsersApi.js\<close>, the third module of
  \<^verbatim>\<open>src/utils/telegramNotifier.js\<close>): the request is rejected (\<open>Inl\<close>) or answers
  with the body of the reply, which may be null (\<open>None\<close>). \<open>sendMail\<close> is the mail
  transport of \<^verbatim>\<open>utils/mailer.js\<close> (second module of the same file): it tells
  whether the mail to an address goes through. \<open>toNumber\<close> is the language's
  conversion of a non-empty string to a Number (\<open>None\<close> is NaN), \<open>numToString\<close> its
  conversion of a Number to a string.
\<close>

record env =
  secsers_status :: "number \<Rightarrow> exn + snapshot option"
  sendMail :: "string \<Rightarrow> bool"
  toNumber :: "string \<Rightarrow> number option"
  numToString :: "number option \<Rightarrow> string"

datatype 'a response =
    Json 'a
  | Status nat string
  | Next exn

subsection \<open>JavaScript values\<close>

text \<open>A string is truthy unless it is empty; \<^verbatim>\<open>undefined\<close> is falsy.\<close>

definition truthy :: "string option \<Rightarrow> bool" where
  "truthy v = (case v of None \<Rightarrow> False | Some s \<Rightarrow> s \<noteq> [])"

text \<open>\<^verbatim>\<open>v || d\<close> for an optional string and a string default.\<close>

definition orDefault :: "string option \<Rightarrow> string \<Rightarrow> string" where
  "orDefault v d = (case v of None \<Rightarrow> d | Some s \<Rightarrow> if s = [] then d else s)"

text \<open>\<^verbatim>\<open>Number(s)\<close> for a string: the empty string converts to 0.\<close>

definition Number :: "env \<Rightarrow> string \<Rightarrow> number option" where
  "Number e s = (if s = [] then Some (Finite 0) else toNumber e s)"

subsection \<open>Collections\<close>

definition findOrder :: "db \<Rightarrow> objectId \<Rightarrow> order option" where
  "findOrder s i = find (\<lambda>d. o_id d = i) (orders s)"

definition findUser :: "db \<Rightarrow> objectId \<Rightarrow> user option" where
  "findUser s i = find (\<lambda>d. u_id d = i) (users s)"

definition findTransaction :: "db \<Rightarrow> objectId \<Rightarrow> transaction option" where
  "findTransaction s i = find (\<lambda>d. t_id d = i) (transactions s)"

definition findByReference :: "db \<Rightarrow> string \<Rightarrow> transaction option" where
  "findByReference s r = find (\<lambda>d. reference d = Some r) (transactions s)"

definition saveUser :: "db \<Rightarrow> user \<Rightarrow> db" where
  "saveUser s u = s\<lparr>users := map (\<lambda>d. if u_id d = u_id u then u else d) (users s)\<rparr>"

definition saveTransaction :: "db \<Rightarrow> transaction \<Rightarrow> db" where
  "saveTransaction s t =
     s\<lparr>transactions := map (\<lambda>d. if t_id d = t_id t then t else d) (transactions s)\<rparr>"

text \<open>
  The Order schema's \<^verbatim>\<open>pre('validate')\<close> hook runs on every save: a secsers order
  needs a link.
\<close>

definition validateOrder :: "order \<Rightarrow> exn option" where
  "validateOrder d =
     (if provider d = secsers \<and> \<not> truthy (link d)
      then Some (ValidationError ''Link is required for secsers orders'')
      else None)"

definition saveOrder :: "db \<Rightarrow> order \<Rightarrow> exn + db" where
  "saveOrder s d =
     (case validateOrder d of
        Some e \<Rightarrow> Inl e
      | None \<Rightarrow> Inr (s\<lparr>orders := map (\<lambda>x. if o_id x = o_id d then d else x) (orders s)\<rparr>))"

text \<open>A schema field of type Number refuses NaN; the next \<^verbatim>\<open>save\<close> is rejected with this.\<close>

definition castError :: exn where
  "castError = ValidationError ''Cast to Number failed''"

definition createNotification :: "db \<Rightarrow> notification \<Rightarrow> db" where
  "createNotification s n = s\<lparr>notifications := notifications s @ [n]\<rparr>"

definition consoleLog :: "db \<Rightarrow> console_line \<Rightarrow> db" where
  "consoleLog s l = s\<lparr>console := console s @ [l]\<rparr>"

text \<open>\<^verbatim>\<open>try { await sendMail(...) } catch (mailErr) { console.error(...) }\<close>\<close>

definition tryMail :: "env \<Rightarrow> db \<Rightarrow> string \<Rightarrow> db" where
  "tryMail e s addr = (if sendMail e addr then s else consoleLog s (MailFailed MailError))"

subsection \<open>Manual orders: admin confirm and reject (\<^verbatim>\<open>src/routes/adminOrders.js\<close>)\<close>

text \<open>The \<^verbatim>\<open>catch (e)\<close> of both routes: log and hand the error to \<^verbatim>\<open>next\<close>.\<close>

definition caught :: "db \<Rightarrow> exn \<Rightarrow> 'a response \<times> db" where
  "caught s err = (Next err, consoleLog s (RouteError err))"

text \<open>
  \<^verbatim>\<open>user.balance >= order.charge\<close>: the charge is a string, converted to a Number
  for the comparison; a comparison with \<^verbatim>\<open>undefined\<close> or NaN is false.
\<close>

definition balanceCovers :: "env \<Rightarrow> number \<Rightarrow> string option \<Rightarrow> bool" where
  "balanceCovers e b ch =
     (case ch of
        None \<Rightarrow> False
      | Some str \<Rightarrow> (case Number e str of None \<Rightarrow> False | Some c \<Rightarrow> numLe c b))"

text \<open>\<^verbatim>\<open>Number(order.charge || 0)\<close>\<close>

definition chargeNumber :: "env \<Rightarrow> string option \<Rightarrow> number option" where
  "chargeNumber e ch =
     (case ch of
        None \<Rightarrow> Some (Finite 0)
      | Some str \<Rightarrow> if str = [] then Some (Finite 0) else Number e str)"

definition manualReference :: "objectId \<Rightarrow> string" where
  "manualReference i = ''manual-order:'' @ i"

text \<open>
  Lines 126 to 136 of the confirm route, under the comment ``Deduct balance now and
  complete transaction''. \<open>owner\<close> is the populated \<^verbatim>\<open>order.userId\<close>, null when
  the user document is gone; reading \<^verbatim>\<open>_id\<close> of null throws. The result is \<open>Inl\<close> with
  the database as it stands when something throws. The subtraction is the language's,
  on doubles; when it yields NaN the User schema refuses the balance and
  \<^verbatim>\<open>user.save()\<close> is rejected.
\<close>

definition deductAndComplete :: "env \<Rightarrow> db \<Rightarrow> order \<Rightarrow> user option \<Rightarrow> exn \<times> db + db" where
  "deductAndComplete e s ord owner =
     (case findByReference s (manualReference (o_id ord)) of
        None \<Rightarrow> Inr s
      | Some txn \<Rightarrow>
          (case owner of
             None \<Rightarrow> Inl (TypeError, s)
           | Some pu \<Rightarrow>
               (case (case findUser s (u_id pu) of
                        None \<Rightarrow> Inr s
                      | Some usr \<Rightarrow>
                          if balanceCovers e (balance usr) (charge ord)
                          then (case chargeNumber e (charge ord) of
                                  None \<Rightarrow> Inl (castError, s)
                                | Some c \<Rightarrow>
                                    (case numSub (balance usr) c of
                                       None \<Rightarrow> Inl (castError, s)
                                     | Some b \<Rightarrow> Inr (saveUser s (usr\<lparr>balance := b\<rparr>))))
                          else Inr s) of
                  Inl x \<Rightarrow> Inl x
                | Inr s1 \<Rightarrow> Inr (saveTransaction s1 (txn\<lparr>t_status := completed\<rparr>)))))"

text \<open>\<^verbatim>\<open>POST /:id/confirm\<close> with body \<^verbatim>\<open>{notes}\<close>.\<close>

definition confirmOrder ::
  "env \<Rightarrow> db \<Rightarrow> objectId \<Rightarrow> string option \<Rightarrow> (string \<times> order) response \<times> db" where
  "confirmOrder e s i notes =
     (case findOrder s i of
        None \<Rightarrow> (Status 404 ''Order not found'', s)
      | Some found \<Rightarrow>
          let owner = findUser s (userId found) in
          if provider found \<noteq> manual
          then (Status 400 ''Only manual orders can be confirmed'', s)
          else if status found \<noteq> ''Pending Admin Approval''
          then (Status 400 ''Order is not awaiting admin confirmation'', s)
          else
            let ord = found\<lparr>status := ''Completed'',
                            adminNotes := Some (orDefault notes ''Confirmed by admin'')\<rparr>
            in (case saveOrder s ord of
                  Inl err \<Rightarrow> caught s err
                | Inr s1 \<Rightarrow>
                    (case deductAndComplete e s1 ord owner of
                       Inl (err, s2) \<Rightarrow> caught s2 err
                     | Inr s2 \<Rightarrow>
                         (case owner of
                            None \<Rightarrow> caught s2 TypeError
                          | Some u \<Rightarrow>
                              let s3 = createNotification s2
                                         \<lparr>n_userId = u_id u, title = ''Order Confirmed'',
                                          msg = OrderConfirmedMsg (orderNumber ord)\<rparr>;
                                  s4 = tryMail e s3 (email u)
                              in (Json (''Manual order confirmed'', ord), s4)))))"

text \<open>
  \<^verbatim>\<open>POST /:id/reject\<close> with body \<^verbatim>\<open>{reason}\<close>. \<^verbatim>\<open>findOneAndUpdate\<close> changes the
  first transaction with the order's reference, if there is one.
\<close>

definition rejectOrder ::
  "env \<Rightarrow> db \<Rightarrow> objectId \<Rightarrow> string option \<Rightarrow> (string \<times> order) response \<times> db" where
  "rejectOrder e s i reason =
     (case findOrder s i of
        None \<Rightarrow> (Status 404 ''Order not found'', s)
      | Some found \<Rightarrow>
          let owner = findUser s (userId found) in
          if provider found \<noteq> manual
          then (Status 400 ''Only manual orders can be rejected'', s)
          else if status found \<noteq> ''Pending Admin Approval''
          then (Status 400 ''Order is not awaiting admin confirmation'', s)
          else
            let s1 = (case findByReference s (manualReference (o_id found)) of
                        None \<Rightarrow> s
                      | Some txn \<Rightarrow> saveTransaction s (txn\<lparr>t_status := failed\<rparr>));
                ord = found\<lparr>status := ''Rejected'',
                            adminNotes := Some (orDefault reason ''Rejected by admin'')\<rparr>
            in (case saveOrder s1 ord of
                  Inl err \<Rightarrow> caught s1 err
                | Inr s2 \<Rightarrow>
                    (case owner of
                       None \<Rightarrow> caught s2 TypeError
                     | Some u \<Rightarrow>
                         let s3 = createNotification s2
                                    \<lparr>n_userId = u_id u, title = ''Order Rejected'',
                                     msg = OrderRejectedMsg (orderNumber ord) (adminNotes ord)\<rparr>;
                             s4 = tryMail e s3 (email u)
                         in (Json (''Manual order rejected and refunded'', ord), s4))))"

text \<open>A sequence of admin calls on one order, each running on the database the last left.\<close>

datatype admin_call = Confirm "string option" | Reject "string option"

definition adminCall ::
  "env \<Rightarrow> db \<Rightarrow> objectId \<Rightarrow> admin_call \<Rightarrow> (string \<times> order) response \<times> db" where
  "adminCall e s i c =
     (case c of Confirm notes \<Rightarrow> confirmOrder e s i notes | Reject reason \<Rightarrow> rejectOrder e s i reason)"

fun adminCalls ::
  "env \<Rightarrow> db \<Rightarrow> objectId \<Rightarrow> admin_call list \<Rightarrow> (string \<times> order) response list \<times> db" where
  "adminCalls e s i [] = ([], s)"
| "adminCalls e s i (c # cs) =
     (let (r, s1) = adminCall e s i c; (rs, s2) = adminCalls e s1 i cs in (r # rs, s2))"

subsection \<open>Deposits: admin confirm and reject (\<^verbatim>\<open>src/unnamed/part_004\<close>)\<close>

text \<open>
  The body of a successful reply: message, deposit number, rejection reason (reject
  only) and the user. The routes' \<^verbatim>\<open>catch\<close> hands the error to \<^verbatim>\<open>next\<close> without
  logging. The Transaction schema's \<^verbatim>\<open>pre('save')\<close> hook acts on new documents only,
  so it does nothing here. \<^verbatim>\<open>user.balance += tx.amount\<close> is the language's addition
  on doubles; when it yields NaN the User schema refuses the balance and
  \<^verbatim>\<open>user.save()\<close> is rejected.
\<close>

type_synonym deposit_reply = "string \<times> number option \<times> string option \<times> user"

definition confirmDeposit :: "env \<Rightarrow> db \<Rightarrow> objectId \<Rightarrow> deposit_reply response \<times> db" where
  "confirmDeposit e s i =
     (case findTransaction s i of
        None \<Rightarrow> (Status 404 ''Transaction not found'', s)
      | Some found \<Rightarrow>
          let owner = findUser s (t_userId found) in
          if t_type found \<noteq> deposit then (Status 400 ''Not a deposit transaction'', s)
          else if t_status found = completed then (Status 400 ''Already confirmed'', s)
          else if t_status found = failed then (Status 400 ''Already rejected'', s)
          else
            let tx = found\<lparr>t_status := completed\<rparr>;
                s1 = saveTransaction s tx
            in (case owner of
                  None \<Rightarrow> (Next TypeError, s1)
                | Some u0 \<Rightarrow>
                    (case numAdd (balance u0) (amount tx) of
                       None \<Rightarrow> (Next castError, s1)
                     | Some b \<Rightarrow>
                         let usr = u0\<lparr>balance := b\<rparr>;
                             s2 = saveUser s1 usr;
                             s3 = createNotification s2
                                    \<lparr>n_userId = u_id usr, title = ''Deposit Confirmed'',
                                     msg = DepositConfirmedMsg (amount tx) (balance usr)\<rparr>;
                             s4 = tryMail e s3 (email usr)
                         in (Json (''Deposit confirmed'', t_orderNumber tx, None, usr), s4))))"

definition rejectDeposit ::
  "env \<Rightarrow> db \<Rightarrow> objectId \<Rightarrow> string option \<Rightarrow> deposit_reply response \<times> db" where
  "rejectDeposit e s i reason =
     (case findTransaction s i of
        None \<Rightarrow> (Status 404 ''Transaction not found'', s)
      | Some found \<Rightarrow>
          let owner = findUser s (t_userId found) in
          if t_type found \<noteq> deposit then (Status 400 ''Not a deposit transaction'', s)
          else if t_status found = completed then (Status 400 ''Already confirmed'', s)
          else if t_status found = failed then (Status 400 ''Already rejected'', s)
          else
            let tx = found\<lparr>t_status := failed,
                           rejectReason := Some (orDefault reason ''No reason provided'')\<rparr>;
                s1 = saveTransaction s tx
            in (case owner of
                  None \<Rightarrow> (Next TypeError, s1)
                | Some u \<Rightarrow>
                    let s2 = createNotification s1
                               \<lparr>n_userId = u_id u, title = ''Deposit Rejected'',
                                msg = DepositRejectedMsg (amount tx) (rejectReason tx)\<rparr>;
                        s3 = tryMail e s2 (email u)
                    in (Json (''Deposit rejected'', t_orderNumber tx, rejectReason tx, u), s3)))"

datatype deposit_call = ConfirmDeposit | RejectDeposit "string option"

definition depositCall ::
  "env \<Rightarrow> db \<Rightarrow> objectId \<Rightarrow> deposit_call \<Rightarrow> deposit_reply response \<times> db" where
  "depositCall e s i c =
     (case c of ConfirmDeposit \<Rightarrow> confirmDeposit e s i | RejectDeposit reason \<Rightarrow> rejectDeposit e s i reason)"

fun depositCalls ::
  "env \<Rightarrow> db \<Rightarrow> objectId \<Rightarrow> deposit_call list \<Rightarrow> deposit_reply response list \<times> db" where
  "depositCalls e s i [] = ([], s)"
| "depositCalls e s i (c # cs) =
     (let (r, s1) = depositCall e s i c; (rs, s2) = depositCalls e s1 i cs in (r # rs, s2))"

subsection \<open>Provider orders: the sync job and the status refresh (\<^verbatim>\<open>src/jobs/orderSync.js\<close>)\<close>

text \<open>
  Assigning \<^verbatim>\<open>Number(v)\<close> to a schema field of type Number when \<^verbatim>\<open>v\<close> is truthy.
  A NaN is not a value of such a field: the assignment is refused, the field keeps its
  value and the next \<^verbatim>\<open>save\<close> is rejected.
\<close>

definition assignNumber ::
  "env \<Rightarrow> string option \<Rightarrow> number option \<Rightarrow> number option" where
  "assignNumber e v old =
     (case v of
        None \<Rightarrow> old
      | Some str \<Rightarrow> if str = [] then old
                    else (case Number e str of None \<Rightarrow> old | Some n \<Rightarrow> Some n))"

definition castFails :: "env \<Rightarrow> string option \<Rightarrow> bool" where
  "castFails e v =
     (case v of None \<Rightarrow> False | Some str \<Rightarrow> str \<noteq> [] \<and> Number e str = None)"

text \<open>Lines 22 to 26 of the job: the reply \<open>st\<close> merged into the order, \<open>new\<close> its status.\<close>

definition sweepMerge :: "env \<Rightarrow> order \<Rightarrow> snapshot \<Rightarrow> string \<Rightarrow> order" where
  "sweepMerge e ord st new =
     (let o1 = ord\<lparr>status := new\<rparr>;
          o2 = (if truthy (st_charge st) then o1\<lparr>charge := st_charge st\<rparr> else o1);
          o3 = o2\<lparr>start_count := assignNumber e (st_start_count st) (start_count o2)\<rparr>;
          o4 = o3\<lparr>remains := assignNumber e (st_remains st) (remains o3)\<rparr>
      in (case st_currency st of
            None \<Rightarrow> o4
          | Some c \<Rightarrow> if c = [] then o4 else o4\<lparr>currency := c\<rparr>))"

definition saveMerged :: "env \<Rightarrow> db \<Rightarrow> snapshot \<Rightarrow> order \<Rightarrow> exn + db" where
  "saveMerged e s st d =
     (if castFails e (st_start_count st) \<or> castFails e (st_remains st)
      then Inl castError
      else saveOrder s d)"

text \<open>
  The inner \<^verbatim>\<open>try\<close> block of the loop for one order with provider id \<open>pid\<close>; \<open>Inl\<close>
  is what it throws, with the database as it stands then.
\<close>

definition syncTry :: "env \<Rightarrow> db \<Rightarrow> order \<Rightarrow> number \<Rightarrow> exn \<times> db + db" where
  "syncTry e s ord pid =
     (case secsers_status e pid of
        Inl err \<Rightarrow> Inl (err, s)
      | Inr reply \<Rightarrow>
          (case reply of
             None \<Rightarrow> Inr s
           | Some st \<Rightarrow>
               (case st_status st of
                  None \<Rightarrow> Inr s
                | Some new \<Rightarrow>
                    if new = [] \<or> new = status ord then Inr s
                    else
                      let oldStatus = status ord;
                          ord1 = sweepMerge e ord st new
                      in (case saveMerged e s st ord1 of
                            Inl err \<Rightarrow> Inl (err, s)
                          | Inr s1 \<Rightarrow>
                              let s2 = consoleLog s1 (OrderUpdated (o_id ord1) oldStatus (status ord1))
                              in (case findUser s2 (userId ord1) of
                                    None \<Rightarrow> Inr s2
                                  | Some u \<Rightarrow>
                                      let s3 = createNotification s2
                                                 \<lparr>n_userId = u_id u,
                                                  title = ''Order #'' @ o_id ord1 @ '' status updated'',
                                                  msg = SweepStatusMsg (service ord1) oldStatus (status ord1)\<rparr>
                                      in if sendMail e (email u) then Inr s3
                                         else Inl (MailError, s3))))))"

text \<open>The loop body: skip an order without provider id, catch and log what the block throws.\<close>

definition syncOrder :: "env \<Rightarrow> db \<Rightarrow> order \<Rightarrow> db" where
  "syncOrder e s ord =
     (case providerOrder ord of
        None \<Rightarrow> s
      | Some pid \<Rightarrow>
          if pid = Finite 0 then s
          else (case syncTry e s ord pid of
                  Inl (err, s1) \<Rightarrow> consoleLog s1 (OrderUpdateFailed (o_id ord) err)
                | Inr s1 \<Rightarrow> s1))"

fun syncLoop :: "env \<Rightarrow> db \<Rightarrow> order list \<Rightarrow> db" where
  "syncLoop e s [] = s"
| "syncLoop e s (ord # rest) = syncLoop e (syncOrder e s ord) rest"

definition openOrders :: "db \<Rightarrow> order list" where
  "openOrders s = filter (\<lambda>d. status d = ''Pending'' \<or> status d = ''In progress'') (orders s)"

text \<open>
  The scheduled callback. The first component is the exception that leaves the
  callback, if any: the loop catches per order, and nothing else in the outer
  \<^verbatim>\<open>try\<close> throws.
\<close>

definition orderSyncJob :: "env \<Rightarrow> db \<Rightarrow> exn option \<times> db" where
  "orderSyncJob e s =
     (let s0 = consoleLog s SyncStarted
      in (None, syncLoop e s0 (openOrders s0)))"

text \<open>\<^verbatim>\<open>st?.f\<close> for a reply that may be null.\<close>

definition replyField :: "snapshot option \<Rightarrow> (snapshot \<Rightarrow> string option) \<Rightarrow> string option" where
  "replyField reply f = (case reply of None \<Rightarrow> None | Some st \<Rightarrow> f st)"



text \<open>
  \<^verbatim>\<open>POST /:id/refresh\<close> of \<^verbatim>\<open>src/routes/adminOrders.js\<close>, the admin's refresh of a
  provider order. Lines 94 to 98: the charge is stored as the reply gives it. The route
  creates no notification and sends no mail; its \<^verbatim>\<open>catch\<close> logs and hands the error to
  \<^verbatim>\<open>next\<close>.
\<close>

definition adminMerge :: "env \<Rightarrow> order \<Rightarrow> snapshot option \<Rightarrow> order" where
  "adminMerge e ord reply =
     (let o1 = ord\<lparr>status := orDefault (replyField reply st_status) (status ord)\<rparr>;
          o2 = (if truthy (replyField reply st_charge)
                then o1\<lparr>charge := replyField reply st_charge\<rparr> else o1);
          o3 = o2\<lparr>start_count := assignNumber e (replyField reply st_start_count) (start_count o2)\<rparr>;
          o4 = o3\<lparr>remains := assignNumber e (replyField reply st_remains) (remains o3)\<rparr>
      in (case replyField reply st_currency of
            None \<Rightarrow> o4
          | Some c \<Rightarrow> if c = [] then o4 else o4\<lparr>currency := c\<rparr>))"

definition adminRefresh :: "env \<Rightarrow> db \<Rightarrow> objectId \<Rightarrow> order response \<times> db" where
  "adminRefresh e s i =
     (case findOrder s i of
        None \<Rightarrow> (Status 404 ''Order not found'', s)
      | Some found \<Rightarrow>
          if provider found \<noteq> secsers
          then (Status 400 ''Only Secsers provider orders can be refreshed'', s)
          else
            (case providerOrder found of
               None \<Rightarrow> (Status 400 ''No provider order ID'', s)
             | Some pid \<Rightarrow>
                 if pid = Finite 0 then (Status 400 ''No provider order ID'', s)
                 else
                   (case secsers_status e pid of
                      Inl err \<Rightarrow> caught s err
                    | Inr reply \<Rightarrow>
                        let ord = adminMerge e found reply
                        in (case (if castFails e (replyField reply st_start_count)
                                     \<or> castFails e (replyField reply st_remains)
                                  then Inl castError else saveOrder s ord) of
                              Inl err \<Rightarrow> caught s err
                            | Inr s1 \<Rightarrow> (Json ord, s1)))))"

subsection \<open>Sample data\<close>

text \<open>
  The scenarios of the specification as concrete documents: a manual order of charge 20
  with its pending transaction, owned by a user with balance 50 (Amal) or 5 (Bilal); a
  manual order without transaction; pending and settled deposits; open provider
  orders, the second of which the provider fails to answer for. Chadi and Dana hold
  balances at which doubles are two apart.
\<close>

definition amal :: user where
  "amal = \<lparr>u_id = ''u1'', email = ''amal@example.org'', balance = Finite 50\<rparr>"

definition bilal :: user where
  "bilal = \<lparr>u_id = ''u2'', email = ''bilal@example.org'', balance = Finite 5\<rparr>"

definition chadi :: user where
  "chadi = \<lparr>u_id = ''u3'', email = ''chadi@example.org'', balance = Finite 10000000000000000\<rparr>"

definition dana :: user where
  "dana = \<lparr>u_id = ''u4'', email = ''dana@example.org'', balance = Finite 9007199254740992\<rparr>"

definition manualOrder :: "objectId \<Rightarrow> objectId \<Rightarrow> order" where
  "manualOrder i uid =
     \<lparr>o_id = i, userId = uid, service = ''svc1'', link = None, providerOrder = None,
      status = ''Pending Admin Approval'', charge = Some ''20'', currency = ''USD'',
      start_count = None, remains = None, provider = manual, adminNotes = None,
      orderNumber = Some (Finite 7)\<rparr>"

definition orderTransaction :: "objectId \<Rightarrow> objectId \<Rightarrow> objectId \<Rightarrow> transaction" where
  "orderTransaction i uid oid =
     \<lparr>t_id = i, t_userId = uid, t_type = order_tx, amount = Finite 20,
      t_status = pending, reference = Some (''manual-order:'' @ oid), rejectReason = None,
      t_orderNumber = Some (Finite 7)\<rparr>"

definition depositTransaction :: "objectId \<Rightarrow> tx_status \<Rightarrow> transaction" where
  "depositTransaction i st =
     \<lparr>t_id = i, t_userId = ''u1'', t_type = deposit, amount = Finite 15, t_status = st,
      reference = Some ''whish-554'', rejectReason = None, t_orderNumber = Some (Finite 3)\<rparr>"

definition providerOrderDoc :: "objectId \<Rightarrow> rat \<Rightarrow> order" where
  "providerOrderDoc i pid =
     \<lparr>o_id = i, userId = ''u1'', service = ''svc2'', link = Some ''https://example.org/p'',
      providerOrder = Some (Finite pid), status = ''Pending'', charge = None,
      currency = ''USD'', start_count = None, remains = None, provider = secsers,
      adminNotes = None, orderNumber = Some (Finite 8)\<rparr>"

definition sampleDb :: db where
  "sampleDb =
     \<lparr>orders = [manualOrder ''o1'' ''u1'', manualOrder ''o2'' ''u2'', manualOrder ''o3'' ''u1'',
                providerOrderDoc ''p1'' 999, providerOrderDoc ''p2'' 1000,
                providerOrderDoc ''p3'' 1001, providerOrderDoc ''p4'' 1002,
                providerOrderDoc ''p5'' 1003],
      users = [amal, bilal],
      transactions = [orderTransaction ''t1'' ''u1'' ''o1'', orderTransaction ''t2'' ''u2'' ''o2'',
                      depositTransaction ''d1'' pending, depositTransaction ''d2'' completed,
                      depositTransaction ''d3'' failed],
      notifications = [],
      console = []\<rparr>"

text \<open>
  A second database: Chadi's manual order of charge 1 with its pending transaction, and
  a pending deposit of 1 for Dana.
\<close>

definition roundingDb :: db where
  "roundingDb =
     \<lparr>orders = [(manualOrder ''o4'' ''u3'')\<lparr>charge := Some ''1''\<rparr>],
      users = [chadi, dana],
      transactions = [(orderTransaction ''t4'' ''u3'' ''o4'')\<lparr>amount := Finite 1\<rparr>,
                      (depositTransaction ''d4'' pending)\<lparr>t_userId := ''u4'', amount := Finite 1\<rparr>],
      notifications = [],
      console = []\<rparr>"

definition sampleReply :: "string \<Rightarrow> string option \<Rightarrow> string option \<Rightarrow> snapshot" where
  "sampleReply st ch cur =
     \<lparr>st_status = Some st, st_charge = ch, st_start_count = None, st_remains = None,
      st_currency = cur\<rparr>"

definition fullReply :: snapshot where
  "fullReply =
     \<lparr>st_status = Some ''In progress'', st_charge = Some ''1.23'',
      st_start_count = Some ''3572'', st_remains = Some ''157'', st_currency = Some ''EUR''\<rparr>"

text \<open>
  A sample environment: the provider reports order 999 completed with charge 1.23,
  fails for order 1000, reports order 1001 in progress, order 1002 still pending but
  in another currency, and order 1003 in progress with every field present; mail goes
  through; the conversions know the numerals of the samples (1.23 reads as the double
  nearest to it).
\<close>

definition sampleEnv :: env where
  "sampleEnv =
     \<lparr>secsers_status =
        (\<lambda>pid. if pid = Finite 999
               then Inr (Some (sampleReply ''Completed'' (Some ''1.23'') None))
               else if pid = Finite 1000 then Inl (ProviderError ''timeout'')
               else if pid = Finite 1001 then Inr (Some (sampleReply ''In progress'' None None))
               else if pid = Finite 1002
               then Inr (Some (sampleReply ''Pending'' None (Some ''EUR'')))
               else if pid = Finite 1003 then Inr (Some fullReply)
               else Inr None),
      sendMail = (\<lambda>addr. True),
      toNumber =
        (\<lambda>str. if str = ''20'' then Some (Finite 20)
               else if str = ''1'' then Some (Finite 1)
               else if str = ''3572'' then Some (Finite 3572)
               else if str = ''157'' then Some (Finite 157)
               else if str = ''1.23'' then Some (Finite (2769713770832855 / 2251799813685248))
               else None),
      numToString =
        (\<lambda>n. if n = Some (Finite 20) then ''20''
             else if n = Some (Finite (2769713770832855 / 2251799813685248)) then ''1.23''
             else ''NaN'')\<rparr>"

section \<open>Properties\<close>

subsection \<open>Lookups after a save\<close>

lemma find_key_replace:
  "key v = k' \<Longrightarrow>
   find (\<lambda>d. key d = k) (map (\<lambda>d. if key d = k' then v else d) xs) =
     (if k' = k then map_option (\<lambda>_. v) (find (\<lambda>d. key d = k) xs)
      else find (\<lambda>d. key d = k) xs)"
  by (induction xs) auto

lemma find_pred_replace:
  "find P xs = Some t \<Longrightarrow> key t = k' \<Longrightarrow> P v \<Longrightarrow>
   find P (map (\<lambda>d. if key d = k' then v else d) xs) = Some v"
  by (induction xs) (auto split: if_splits)

lemma find_SomeD: "find P xs = Some x \<Longrightarrow> P x \<and> x \<in> set xs"
  by (induction xs) (auto split: if_splits)

lemma find_distinct_key:
  "distinct (map key xs) \<Longrightarrow> x \<in> set xs \<Longrightarrow> find (\<lambda>d. key d = key x) xs = Some x"
  by (induction xs) auto

lemma findOrder_id: "findOrder s i = Some d \<Longrightarrow> o_id d = i"
  by (auto simp: findOrder_def dest: find_SomeD)

lemma findUser_id: "findUser s i = Some d \<Longrightarrow> u_id d = i"
  by (auto simp: findUser_def dest: find_SomeD)

lemma findTransaction_id: "findTransaction s i = Some d \<Longrightarrow> t_id d = i"
  by (auto simp: findTransaction_def dest: find_SomeD)

lemma findByReference_ref: "findByReference s r = Some d \<Longrightarrow> reference d = Some r"
  by (auto simp: findByReference_def dest: find_SomeD)

lemma validate_manual: "provider d = manual \<Longrightarrow> validateOrder d = None"
  by (simp add: validateOrder_def)

lemma validateOrder_cong:
  "provider a = provider b \<Longrightarrow> link a = link b \<Longrightarrow> validateOrder a = validateOrder b"
  by (simp add: validateOrder_def)

lemmas db_ops = saveUser_def saveTransaction_def createNotification_def tryMail_def
  consoleLog_def caught_def

lemmas sample_defs = sampleDb_def roundingDb_def sampleEnv_def amal_def bilal_def chadi_def
  dana_def manualOrder_def orderTransaction_def depositTransaction_def providerOrderDoc_def
  sampleReply_def fullReply_def
  findOrder_def findUser_def findTransaction_def findByReference_def manualReference_def
  Number_def

subsection \<open>Numbers\<close>

lemma numLess_not_numLe: "numLess a b \<Longrightarrow> \<not> numLe b a"
  by (cases a; cases b) (auto simp: numLess_def)

text \<open>Sums and differences of the samples, rounded.\<close>

lemma round_30: "roundDouble 30 = Finite 30"
  by code_simp

lemma round_65: "roundDouble 65 = Finite 65"
  by code_simp

lemma round_below_1e16: "roundDouble 9999999999999999 = Finite 10000000000000000"
  by code_simp

lemma round_above_2_53: "roundDouble 9007199254740993 = Finite 9007199254740992"
  by code_simp

subsection \<open>Manual orders\<close>

text \<open>
  Claim C1, as the code has it. Confirming a manual order that awaits admin approval,
  when the balance of its owner and the charge are finite and the balance is at least
  the charge, answers with success, leaves the order \<^verbatim>\<open>Completed\<close> and the transaction
  with reference \<^verbatim>\<open>manual-order:<orderId>\<close> \<^verbatim>\<open>completed\<close>, and stores as the owner's
  balance the double nearest to balance minus charge, which is what \<^verbatim>\<open>-=\<close> computes. The
  balance drops by exactly the charge whenever that difference is itself a double.
\<close>

theorem confirm_sufficient_balance:
  assumes ord: "findOrder s i = Some ord"
    and man: "provider ord = manual"
    and pend: "status ord = ''Pending Admin Approval''"
    and usr: "findUser s (userId ord) = Some u"
    and txn: "findByReference s (manualReference i) = Some txn"
    and ch: "charge ord = Some str" "Number e str = Some (Finite c)"
    and bal: "balance u = Finite b"
    and enough: "c \<le> b"
  shows "\<exists>r s'. confirmOrder e s i notes = (Json (''Manual order confirmed'', r), s')
           \<and> findOrder s' i = Some r \<and> status r = ''Completed''
           \<and> findUser s' (userId ord) = Some (u\<lparr>balance := roundDouble (b - c)\<rparr>)
           \<and> (isDouble (b - c) \<longrightarrow>
                 findUser s' (userId ord) = Some (u\<lparr>balance := Finite (b - c)\<rparr>))
           \<and> findByReference s' (manualReference i) = Some (txn\<lparr>t_status := completed\<rparr>)"
proof -
  have id: "o_id ord = i" using ord by (rule findOrder_id)
  have uid: "u_id u = userId ord" using usr by (rule findUser_id)
  have ref: "reference txn = Some (manualReference i)" using txn by (rule findByReference_ref)
  have cn: "chargeNumber e (charge ord) = Some (Finite c)"
    using ch by (auto simp: chargeNumber_def Number_def)
  have bc: "balanceCovers e (balance u) (charge ord)"
    using ch bal enough by (simp add: balanceCovers_def)
  have sub: "numSub (balance u) (Finite c) = Some (roundDouble (b - c))"
    using bal by simp
  show ?thesis
    using ord man pend usr txn id uid ref cn bc sub
    by (simp add: confirmOrder_def deductAndComplete_def saveOrder_def validate_manual
        Let_def findOrder_def findUser_def findByReference_def saveUser_def saveTransaction_def
        createNotification_def tryMail_def consoleLog_def find_key_replace find_pred_replace
        isDouble_def)
qed

theorem confirm_sufficient_balance_witness:
  "\<exists>r s'. confirmOrder sampleEnv sampleDb ''o1'' None = (Json (''Manual order confirmed'', r), s')
           \<and> findOrder s' ''o1'' = Some r \<and> status r = ''Completed''
           \<and> findUser s' ''u1'' = Some (amal\<lparr>balance := Finite 30\<rparr>)
           \<and> findByReference s' (manualReference ''o1'') =
               Some ((orderTransaction ''t1'' ''u1'' ''o1'')\<lparr>t_status := completed\<rparr>)"
proof -
  have h1: "findOrder sampleDb ''o1'' = Some (manualOrder ''o1'' ''u1'')"
    by (simp add: sample_defs)
  have h2: "provider (manualOrder ''o1'' ''u1'') = manual"
    and h3: "status (manualOrder ''o1'' ''u1'') = ''Pending Admin Approval''"
    and h6: "charge (manualOrder ''o1'' ''u1'') = Some ''20''"
    by (simp_all add: manualOrder_def)
  have h4: "findUser sampleDb (userId (manualOrder ''o1'' ''u1'')) = Some amal"
    by (simp add: sample_defs)
  have h5: "findByReference sampleDb (manualReference ''o1'') =
              Some (orderTransaction ''t1'' ''u1'' ''o1'')"
    by (simp add: sample_defs)
  have h7: "Number sampleEnv ''20'' = Some (Finite 20)"
    by (simp add: sample_defs)
  have h8: "balance amal = Finite 50"
    by (simp add: amal_def)
  have h9: "(20::rat) \<le> 50"
    by simp
  have h10: "isDouble (50 - 20)"
    by (simp add: isDouble_def round_30)
  show ?thesis
    using confirm_sufficient_balance [OF h1 h2 h3 h4 h5 h6 h7 h8 h9, of None] h10
    by (auto simp: manualOrder_def)
qed

text \<open>
  Claim C1 as stated fails where doubles are more than the charge apart: Chadi's balance
  is 10000000000000000, the charge is 1, the confirm succeeds and the stored balance is
  still 10000000000000000.
\<close>

theorem confirm_deducts_nothing_counterexample:
  "map_option balance (findUser roundingDb ''u3'') = Some (Finite 10000000000000000)
   \<and> map_option charge (findOrder roundingDb ''o4'') = Some (Some ''1'')
   \<and> Number sampleEnv ''1'' = Some (Finite 1)
   \<and> fst (confirmOrder sampleEnv roundingDb ''o4'' None) =
        Json (''Manual order confirmed'',
              (manualOrder ''o4'' ''u3'')\<lparr>charge := Some ''1'', status := ''Completed'',
                 adminNotes := Some ''Confirmed by admin''\<rparr>)
   \<and> map_option balance (findUser (snd (confirmOrder sampleEnv roundingDb ''o4'' None)) ''u3'')
        = Some (Finite 10000000000000000)
   \<and> Finite 10000000000000000 \<noteq> Finite (10000000000000000 - 1)"
  by (simp add: confirmOrder_def deductAndComplete_def saveOrder_def validateOrder_def
      balanceCovers_def chargeNumber_def orDefault_def Let_def db_ops sample_defs
      round_below_1e16)

text \<open>
  Claim C3. Confirming a manual order that awaits admin approval, when the balance of
  its owner is strictly below the charge, still completes the order and marks the
  correlated transaction \<^verbatim>\<open>completed\<close>, and no user document changes: nothing is
  deducted.
\<close>

theorem confirm_insufficient_balance:
  assumes ord: "findOrder s i = Some ord"
    and man: "provider ord = manual"
    and pend: "status ord = ''Pending Admin Approval''"
    and usr: "findUser s (userId ord) = Some u"
    and txn: "findByReference s (manualReference i) = Some txn"
    and ch: "charge ord = Some str" "Number e str = Some c"
    and short: "numLess (balance u) c"
  shows "\<exists>r s'. confirmOrder e s i notes = (Json (''Manual order confirmed'', r), s')
           \<and> findOrder s' i = Some r \<and> status r = ''Completed''
           \<and> users s' = users s
           \<and> findByReference s' (manualReference i) = Some (txn\<lparr>t_status := completed\<rparr>)"
proof -
  have id: "o_id ord = i" using ord by (rule findOrder_id)
  have uid: "u_id u = userId ord" using usr by (rule findUser_id)
  have ref: "reference txn = Some (manualReference i)" using txn by (rule findByReference_ref)
  have bc: "\<not> balanceCovers e (balance u) (charge ord)"
    using ch numLess_not_numLe [OF short] by (simp add: balanceCovers_def)
  show ?thesis
    using ord man pend usr txn id uid ref bc
    by (simp add: confirmOrder_def deductAndComplete_def saveOrder_def validate_manual
        Let_def findOrder_def findUser_def findByReference_def db_ops
        find_key_replace find_pred_replace)
qed

theorem confirm_insufficient_balance_witness:
  "\<exists>r s'. confirmOrder sampleEnv sampleDb ''o2'' None = (Json (''Manual order confirmed'', r), s')
           \<and> findOrder s' ''o2'' = Some r \<and> status r = ''Completed''
           \<and> users s' = [amal, bilal]
           \<and> findByReference s' (manualReference ''o2'') =
               Some ((orderTransaction ''t2'' ''u2'' ''o2'')\<lparr>t_status := completed\<rparr>)"
proof -
  have h1: "findOrder sampleDb ''o2'' = Some (manualOrder ''o2'' ''u2'')"
    by (simp add: sample_defs)
  have h2: "provider (manualOrder ''o2'' ''u2'') = manual"
    and h3: "status (manualOrder ''o2'' ''u2'') = ''Pending Admin Approval''"
    and h6: "charge (manualOrder ''o2'' ''u2'') = Some ''20''"
    by (simp_all add: manualOrder_def)
  have h4: "findUser sampleDb (userId (manualOrder ''o2'' ''u2'')) = Some bilal"
    by (simp add: sample_defs)
  have h5: "findByReference sampleDb (manualReference ''o2'') =
              Some (orderTransaction ''t2'' ''u2'' ''o2'')"
    by (simp add: sample_defs)
  have h7: "Number sampleEnv ''20'' = Some (Finite 20)"
    by (simp add: sample_defs)
  have h8: "numLess (balance bilal) (Finite 20)"
    by (simp add: bilal_def numLess_def)
  have "users sampleDb = [amal, bilal]"
    by (simp add: sampleDb_def)
  then show ?thesis
    using confirm_insufficient_balance [OF h1 h2 h3 h4 h5 h6 h7 h8, of None]
    by simp
qed

text \<open>
  Claim C9. Confirming a manual order that awaits admin approval and has no
  transaction with reference \<^verbatim>\<open>manual-order:<orderId>\<close> succeeds: the reply is the
  success message, the order is \<^verbatim>\<open>Completed\<close>, and neither the transactions nor
  the users change.
\<close>

theorem confirm_without_transaction:
  assumes ord: "findOrder s i = Some ord"
    and man: "provider ord = manual"
    and pend: "status ord = ''Pending Admin Approval''"
    and usr: "findUser s (userId ord) = Some u"
    and notxn: "findByReference s (manualReference i) = None"
  shows "\<exists>r s'. confirmOrder e s i notes = (Json (''Manual order confirmed'', r), s')
           \<and> findOrder s' i = Some r \<and> status r = ''Completed''
           \<and> transactions s' = transactions s \<and> users s' = users s"
proof -
  have id: "o_id ord = i" using ord by (rule findOrder_id)
  show ?thesis
    using ord man pend usr notxn id
    by (simp add: confirmOrder_def deductAndComplete_def saveOrder_def validate_manual
        Let_def findOrder_def findUser_def findByReference_def db_ops find_key_replace)
qed

theorem confirm_without_transaction_witness:
  "\<exists>r s'. confirmOrder sampleEnv sampleDb ''o3'' (Some ''done by hand'') =
             (Json (''Manual order confirmed'', r), s')
           \<and> findOrder s' ''o3'' = Some r \<and> status r = ''Completed''
           \<and> transactions s' = transactions sampleDb \<and> users s' = users sampleDb"
proof -
  have h1: "findOrder sampleDb ''o3'' = Some (manualOrder ''o3'' ''u1'')"
    by (simp add: sample_defs)
  have h2: "provider (manualOrder ''o3'' ''u1'') = manual"
    and h3: "status (manualOrder ''o3'' ''u1'') = ''Pending Admin Approval''"
    by (simp_all add: manualOrder_def)
  have h4: "findUser sampleDb (userId (manualOrder ''o3'' ''u1'')) = Some amal"
    by (simp add: sample_defs)
  have h5: "findByReference sampleDb (manualReference ''o3'') = None"
    by (simp add: sample_defs)
  show ?thesis
    using confirm_without_transaction [OF h1 h2 h3 h4 h5] by simp
qed

text \<open>
  Claim C8. Rejecting a manual order that awaits admin approval marks the correlated
  transaction \<^verbatim>\<open>failed\<close>, leaves the order \<^verbatim>\<open>Rejected\<close> with the given reason
  (or the default text when none is given) in \<^verbatim>\<open>adminNotes\<close>, creates one
  notification for the owner carrying that reason, and changes no user document.
\<close>

theorem reject_pending_manual_order:
  assumes ord: "findOrder s i = Some ord"
    and man: "provider ord = manual"
    and pend: "status ord = ''Pending Admin Approval''"
    and usr: "findUser s (userId ord) = Some u"
    and txn: "findByReference s (manualReference i) = Some txn"
  shows "\<exists>r s'. rejectOrder e s i reason = (Json (''Manual order rejected and refunded'', r), s')
           \<and> findByReference s' (manualReference i) = Some (txn\<lparr>t_status := failed\<rparr>)
           \<and> findOrder s' i = Some r \<and> status r = ''Rejected''
           \<and> adminNotes r = Some (orDefault reason ''Rejected by admin'')
           \<and> notifications s' = notifications s @
                [\<lparr>n_userId = userId ord, title = ''Order Rejected'',
                  msg = OrderRejectedMsg (orderNumber ord) (adminNotes r)\<rparr>]
           \<and> users s' = users s"
proof -
  have id: "o_id ord = i" using ord by (rule findOrder_id)
  have uid: "u_id u = userId ord" using usr by (rule findUser_id)
  have ref: "reference txn = Some (manualReference i)" using txn by (rule findByReference_ref)
  show ?thesis
    using ord man pend usr txn id uid ref
    by (simp add: rejectOrder_def saveOrder_def validate_manual
        Let_def findOrder_def findUser_def findByReference_def db_ops
        find_key_replace find_pred_replace)
qed

theorem reject_pending_manual_order_witness:
  "\<exists>r s'. rejectOrder sampleEnv sampleDb ''o1'' (Some ''out of stock'') =
             (Json (''Manual order rejected and refunded'', r), s')
           \<and> findByReference s' (manualReference ''o1'') =
               Some ((orderTransaction ''t1'' ''u1'' ''o1'')\<lparr>t_status := failed\<rparr>)
           \<and> findOrder s' ''o1'' = Some r \<and> status r = ''Rejected''
           \<and> adminNotes r = Some ''out of stock''
           \<and> notifications s' =
                [\<lparr>n_userId = ''u1'', title = ''Order Rejected'',
                  msg = OrderRejectedMsg (Some (Finite 7)) (Some ''out of stock'')\<rparr>]
           \<and> users s' = users sampleDb"
proof -
  have h1: "findOrder sampleDb ''o1'' = Some (manualOrder ''o1'' ''u1'')"
    by (simp add: sample_defs)
  have h2: "provider (manualOrder ''o1'' ''u1'') = manual"
    and h3: "status (manualOrder ''o1'' ''u1'') = ''Pending Admin Approval''"
    by (simp_all add: manualOrder_def)
  have h4: "findUser sampleDb (userId (manualOrder ''o1'' ''u1'')) = Some amal"
    by (simp add: sample_defs)
  have h5: "findByReference sampleDb (manualReference ''o1'') =
              Some (orderTransaction ''t1'' ''u1'' ''o1'')"
    by (simp add: sample_defs)
  have "notifications sampleDb = []"
    by (simp add: sampleDb_def)
  then show ?thesis
    using reject_pending_manual_order [OF h1 h2 h3 h4 h5, of sampleEnv "Some ''out of stock''"]
    by (auto simp: manualOrder_def orDefault_def)
qed

lemma deductAndComplete_orders:
  "deductAndComplete e s ord owner = Inr s' \<Longrightarrow> orders s' = orders s"
  "deductAndComplete e s ord owner = Inl (err, s') \<Longrightarrow> orders s' = orders s"
  by (auto simp: deductAndComplete_def db_ops split: option.splits if_splits sum.splits)

lemma confirmOrder_orders:
  assumes "findOrder s i = Some ord" "provider ord = manual"
    "status ord = ''Pending Admin Approval''"
  shows "orders (snd (confirmOrder e s i notes)) =
           map (\<lambda>x. if o_id x = i
                     then ord\<lparr>status := ''Completed'',
                              adminNotes := Some (orDefault notes ''Confirmed by admin'')\<rparr>
                     else x) (orders s)"
proof -
  have id: "o_id ord = i" using assms(1) by (rule findOrder_id)
  show ?thesis
    using assms id
    by (auto simp: confirmOrder_def saveOrder_def validate_manual Let_def db_ops
        dest: deductAndComplete_orders split: option.splits sum.splits prod.splits)
qed

lemma rejectOrder_orders:
  assumes "findOrder s i = Some ord" "provider ord = manual"
    "status ord = ''Pending Admin Approval''"
  shows "orders (snd (rejectOrder e s i reason)) =
           map (\<lambda>x. if o_id x = i
                     then ord\<lparr>status := ''Rejected'',
                              adminNotes := Some (orDefault reason ''Rejected by admin'')\<rparr>
                     else x) (orders s)"
proof -
  have id: "o_id ord = i" using assms(1) by (rule findOrder_id)
  show ?thesis
    using assms id
    by (auto simp: rejectOrder_def saveOrder_def validate_manual Let_def db_ops
        split: option.splits sum.splits prod.splits)
qed

lemma adminCall_refused:
  assumes "findOrder s i = Some ord"
    and "provider ord \<noteq> manual \<or> status ord \<noteq> ''Pending Admin Approval''"
  shows "\<exists>m. adminCall e s i c = (Status 400 m, s)"
  using assms by (cases c) (auto simp: adminCall_def confirmOrder_def rejectOrder_def Let_def)

lemma adminCalls_refused:
  assumes "findOrder s i = Some ord"
    and "provider ord \<noteq> manual \<or> status ord \<noteq> ''Pending Admin Approval''"
  shows "snd (adminCalls e s i cs) = s \<and>
         (\<forall>x \<in> set (fst (adminCalls e s i cs)). \<exists>m. x = Status 400 m)"
proof (induction cs)
  case Nil
  show ?case by simp
next
  case (Cons c cs)
  from adminCall_refused [OF assms] obtain m where "adminCall e s i c = (Status 400 m, s)"
    by blast
  with Cons show ?case by (auto simp: split_beta)
qed

lemma adminCall_terminal:
  assumes "findOrder s i = Some ord" "provider ord = manual"
    "status ord = ''Pending Admin Approval''"
  shows "\<exists>r. findOrder (snd (adminCall e s i c)) i = Some r \<and> provider r = manual \<and>
           status r = (case c of Confirm _ \<Rightarrow> ''Completed'' | Reject _ \<Rightarrow> ''Rejected'')"
proof (cases c)
  case (Confirm n)
  then show ?thesis
    using assms confirmOrder_orders [OF assms, of e n] findOrder_id [OF assms(1)]
    by (simp add: adminCall_def findOrder_def find_key_replace)
next
  case (Reject n)
  then show ?thesis
    using assms rejectOrder_orders [OF assms, of e n] findOrder_id [OF assms(1)]
    by (simp add: adminCall_def findOrder_def find_key_replace)
qed

text \<open>
  Claim C4. A confirm or reject on an order that is not manual or not awaiting admin
  approval answers with an error and leaves the whole database as it was. On a manual
  order awaiting approval, the first call of any sequence of confirms and rejects fixes
  the terminal status (\<^verbatim>\<open>Completed\<close> for a confirm, \<^verbatim>\<open>Rejected\<close> for a reject);
  every later call of the sequence is refused and the database stays as the first call
  left it.
\<close>

theorem admin_calls_one_terminal_state:
  assumes ord: "findOrder s i = Some ord"
  shows "(provider ord \<noteq> manual \<or> status ord \<noteq> ''Pending Admin Approval'' \<longrightarrow>
            (\<exists>m. adminCall e s i c = (Status 400 m, s)))
       \<and> (provider ord = manual \<and> status ord = ''Pending Admin Approval'' \<longrightarrow>
            (\<exists>r rs s1 final.
               adminCalls e s i (c # cs) = (r # rs, s1)
               \<and> s1 = snd (adminCall e s i c)
               \<and> (\<forall>x \<in> set rs. \<exists>m. x = Status 400 m)
               \<and> findOrder s1 i = Some final
               \<and> status final = (case c of Confirm _ \<Rightarrow> ''Completed'' | Reject _ \<Rightarrow> ''Rejected'')))"
proof (intro conjI impI)
  assume "provider ord \<noteq> manual \<or> status ord \<noteq> ''Pending Admin Approval''"
  with ord show "\<exists>m. adminCall e s i c = (Status 400 m, s)" by (rule adminCall_refused)
next
  assume pm: "provider ord = manual \<and> status ord = ''Pending Admin Approval''"
  obtain r s1 where first: "adminCall e s i c = (r, s1)" by (cases "adminCall e s i c")
  from adminCall_terminal [OF ord, of e c] pm first
  obtain final where fin: "findOrder s1 i = Some final" "provider final = manual"
    "status final = (case c of Confirm _ \<Rightarrow> ''Completed'' | Reject _ \<Rightarrow> ''Rejected'')"
    by auto
  have "status final \<noteq> ''Pending Admin Approval''"
    using fin(3) by (cases c) auto
  then have rest: "snd (adminCalls e s1 i cs) = s1 \<and>
         (\<forall>x \<in> set (fst (adminCalls e s1 i cs)). \<exists>m. x = Status 400 m)"
    using adminCalls_refused [OF fin(1)] by blast
  show "\<exists>r rs s1 final.
               adminCalls e s i (c # cs) = (r # rs, s1)
               \<and> s1 = snd (adminCall e s i c)
               \<and> (\<forall>x \<in> set rs. \<exists>m. x = Status 400 m)
               \<and> findOrder s1 i = Some final
               \<and> status final = (case c of Confirm _ \<Rightarrow> ''Completed'' | Reject _ \<Rightarrow> ''Rejected'')"
    using first rest fin by (auto simp: split_beta)
qed

theorem admin_calls_one_terminal_state_witness:
  "(\<exists>m. adminCall sampleEnv sampleDb ''p1'' (Reject None) = (Status 400 m, sampleDb))
   \<and> (\<exists>r rs s1 final.
         adminCalls sampleEnv sampleDb ''o1'' [Confirm None, Reject None, Confirm None] = (r # rs, s1)
         \<and> s1 = snd (adminCall sampleEnv sampleDb ''o1'' (Confirm None))
         \<and> (\<forall>x \<in> set rs. \<exists>m. x = Status 400 m)
         \<and> findOrder s1 ''o1'' = Some final \<and> status final = ''Completed'')"
proof -
  have p1: "findOrder sampleDb ''p1'' = Some (providerOrderDoc ''p1'' 999)"
    by (simp add: sample_defs)
  have p2: "provider (providerOrderDoc ''p1'' 999) \<noteq> manual"
    by (simp add: providerOrderDoc_def)
  have h1: "findOrder sampleDb ''o1'' = Some (manualOrder ''o1'' ''u1'')"
    by (simp add: sample_defs)
  have h2: "provider (manualOrder ''o1'' ''u1'') = manual
            \<and> status (manualOrder ''o1'' ''u1'') = ''Pending Admin Approval''"
    by (simp add: manualOrder_def)
  show ?thesis
    using admin_calls_one_terminal_state [OF p1, of sampleEnv "Reject None"] p2
      admin_calls_one_terminal_state [OF h1, of sampleEnv "Confirm None" "[Reject None, Confirm None]"] h2
    by simp
qed

text \<open>
  Claim C2, at the input where the code departs from it. Bilal has balance 5 and a
  manual order of charge 20 with a pending transaction. After the confirm the
  transaction is \<^verbatim>\<open>completed\<close> and the balance is still 5: the transaction's status
  changed without the balance change it stands for.
\<close>

theorem confirm_completes_without_deduction:
  "\<exists>r s'. confirmOrder sampleEnv sampleDb ''o2'' None = (Json r, s')
      \<and> map_option t_status (findByReference sampleDb (manualReference ''o2'')) = Some pending
      \<and> map_option t_status (findByReference s' (manualReference ''o2'')) = Some completed
      \<and> map_option balance (findUser sampleDb ''u2'') = Some (Finite 5)
      \<and> map_option balance (findUser s' ''u2'') = Some (Finite 5)"
  by (simp add: confirmOrder_def deductAndComplete_def saveOrder_def validateOrder_def
      balanceCovers_def chargeNumber_def Let_def db_ops sample_defs)


subsection \<open>Deposits\<close>

text \<open>
  Claim C7, as the code has it. Confirming a pending deposit whose amount and whose
  owner's balance are finite leaves the transaction \<^verbatim>\<open>completed\<close> and stores as the
  owner's balance the double nearest to the balance before plus the amount, which is
  what \<^verbatim>\<open>+=\<close> computes; the balance grows by exactly the amount whenever that sum is
  itself a double. Rejecting a pending deposit changes no user document and leaves the
  transaction \<^verbatim>\<open>failed\<close>, with the reason recorded.
\<close>

theorem deposit_confirm_and_reject:
  assumes tx: "findTransaction s i = Some tx"
    and dep: "t_type tx = deposit"
    and pen: "t_status tx = pending"
    and usr: "findUser s (t_userId tx) = Some u"
    and fin: "balance u = Finite b" "amount tx = Finite a"
  shows "(\<exists>r s'. confirmDeposit e s i = (Json r, s')
            \<and> findUser s' (t_userId tx) = Some (u\<lparr>balance := roundDouble (b + a)\<rparr>)
            \<and> (isDouble (b + a) \<longrightarrow>
                  findUser s' (t_userId tx) = Some (u\<lparr>balance := Finite (b + a)\<rparr>))
            \<and> findTransaction s' i = Some (tx\<lparr>t_status := completed\<rparr>))
       \<and> (\<exists>r s'. rejectDeposit e s i reason = (Json r, s')
            \<and> users s' = users s
            \<and> findTransaction s' i = Some (tx\<lparr>t_status := failed,
                   rejectReason := Some (orDefault reason ''No reason provided'')\<rparr>))"
proof -
  have id: "t_id tx = i" using tx by (rule findTransaction_id)
  have uid: "u_id u = t_userId tx" using usr by (rule findUser_id)
  have add: "numAdd (balance u) (amount tx) = Some (roundDouble (b + a))"
    using fin by simp
  show ?thesis
    using tx dep pen usr id uid add
    by (simp add: confirmDeposit_def rejectDeposit_def Let_def findTransaction_def
        findUser_def db_ops find_key_replace isDouble_def)
qed

theorem deposit_confirm_and_reject_witness:
  "(\<exists>r s'. confirmDeposit sampleEnv sampleDb ''d1'' = (Json r, s')
       \<and> findUser s' ''u1'' = Some (amal\<lparr>balance := Finite 65\<rparr>)
       \<and> findTransaction s' ''d1'' = Some (depositTransaction ''d1'' completed))
   \<and> (\<exists>r s'. rejectDeposit sampleEnv sampleDb ''d1'' (Some ''blurred receipt'') = (Json r, s')
       \<and> users s' = users sampleDb
       \<and> findTransaction s' ''d1'' =
           Some ((depositTransaction ''d1'' failed)\<lparr>rejectReason := Some ''blurred receipt''\<rparr>))"
proof -
  have h1: "findTransaction sampleDb ''d1'' = Some (depositTransaction ''d1'' pending)"
    by (simp add: sample_defs)
  have h2: "t_type (depositTransaction ''d1'' pending) = deposit"
    and h3: "t_status (depositTransaction ''d1'' pending) = pending"
    and h6: "amount (depositTransaction ''d1'' pending) = Finite 15"
    by (simp_all add: depositTransaction_def)
  have h4: "findUser sampleDb (t_userId (depositTransaction ''d1'' pending)) = Some amal"
    by (simp add: sample_defs)
  have h5: "balance amal = Finite 50"
    by (simp add: amal_def)
  have h7: "isDouble (50 + 15)"
    by (simp add: isDouble_def round_65)
  show ?thesis
    using deposit_confirm_and_reject [OF h1 h2 h3 h4 h5 h6, of sampleEnv "Some ''blurred receipt''"] h7
    by (auto simp: depositTransaction_def orDefault_def)
qed

text \<open>
  Claim C7 as stated fails where doubles are more than the amount apart: Dana's balance
  is 9007199254740992, the pending deposit is of 1, the confirm completes the
  transaction and the stored balance is still 9007199254740992.
\<close>

theorem deposit_credits_nothing_counterexample:
  "map_option balance (findUser roundingDb ''u4'') = Some (Finite 9007199254740992)
   \<and> map_option amount (findTransaction roundingDb ''d4'') = Some (Finite 1)
   \<and> map_option t_status (findTransaction roundingDb ''d4'') = Some pending
   \<and> map_option t_status
        (findTransaction (snd (confirmDeposit sampleEnv roundingDb ''d4'')) ''d4'') = Some completed
   \<and> map_option balance (findUser (snd (confirmDeposit sampleEnv roundingDb ''d4'')) ''u4'')
        = Some (Finite 9007199254740992)
   \<and> Finite 9007199254740992 \<noteq> Finite (9007199254740992 + 1)"
  by (simp add: confirmDeposit_def Let_def db_ops sample_defs round_above_2_53)

lemma depositCall_refused:
  assumes "findTransaction s i = Some tx"
    and "t_type tx \<noteq> deposit \<or> t_status tx \<noteq> pending"
  shows "\<exists>m. depositCall e s i c = (Status 400 m, s)"
  using assms
  by (cases c; cases "t_status tx")
     (auto simp: depositCall_def confirmDeposit_def rejectDeposit_def Let_def)

lemma depositCalls_refused:
  assumes "findTransaction s i = Some tx"
    and "t_type tx \<noteq> deposit \<or> t_status tx \<noteq> pending"
  shows "snd (depositCalls e s i cs) = s"
proof (induction cs)
  case Nil
  show ?case by simp
next
  case (Cons c cs)
  from depositCall_refused [OF assms] obtain m where "depositCall e s i c = (Status 400 m, s)"
    by blast
  with Cons show ?case by (simp add: split_beta)
qed

lemma depositCall_settles:
  assumes tx: "findTransaction s i = Some tx"
    and dep: "t_type tx = deposit" and pen: "t_status tx = pending"
  shows "\<exists>tx'. findTransaction (snd (depositCall e s i c)) i = Some tx' \<and> t_status tx' \<noteq> pending"
proof -
  have id: "t_id tx = i" using tx by (rule findTransaction_id)
  show ?thesis
    using tx dep pen id
    by (cases c)
       (auto simp: depositCall_def confirmDeposit_def rejectDeposit_def Let_def
          findTransaction_def db_ops find_key_replace split: option.splits)
qed

lemma depositCall_users:
  assumes tx: "findTransaction s i = Some tx"
  shows "users (snd (depositCall e s i c)) = users s
       \<or> (\<exists>u b. findUser s (t_userId tx) = Some u
            \<and> numAdd (balance u) (amount tx) = Some b
            \<and> users (snd (depositCall e s i c)) =
                map (\<lambda>d. if u_id d = t_userId tx then u\<lparr>balance := b\<rparr> else d) (users s))"
proof (cases "findUser s (t_userId tx)")
  case None
  then show ?thesis
    using tx
    by (cases c)
       (auto simp: depositCall_def confirmDeposit_def rejectDeposit_def Let_def db_ops)
next
  case (Some u)
  have uid: "u_id u = t_userId tx" using Some by (rule findUser_id)
  show ?thesis
  proof (cases "numAdd (balance u) (amount tx)")
    case None
    then show ?thesis
      using tx Some
      by (cases c)
         (auto simp: depositCall_def confirmDeposit_def rejectDeposit_def Let_def db_ops)
  next
    case (Some b)
    then show ?thesis
      using tx \<open>findUser s (t_userId tx) = Some u\<close> uid
      by (cases c)
         (auto simp: depositCall_def confirmDeposit_def rejectDeposit_def Let_def db_ops)
  qed
qed

text \<open>
  Claim C10. Confirming or rejecting a deposit that is already \<^verbatim>\<open>completed\<close> or
  \<^verbatim>\<open>failed\<close> answers with an error and leaves the whole database, hence the status,
  the \<^verbatim>\<open>rejectReason\<close> and every balance, as it was. Consequently, whatever sequence of
  confirms and rejects is sent for one deposit, the users are in the end either as
  before or as before with the amount credited once to the owner, the credit being the
  sum as \<^verbatim>\<open>+=\<close> computes it.
\<close>

theorem deposit_settled_once:
  assumes tx: "findTransaction s i = Some tx"
  shows "(t_status tx = completed \<or> t_status tx = failed \<longrightarrow>
            (\<exists>m. confirmDeposit e s i = (Status 400 m, s))
          \<and> (\<exists>m. rejectDeposit e s i reason = (Status 400 m, s)))
       \<and> (users (snd (depositCalls e s i cs)) = users s
          \<or> (\<exists>u b. findUser s (t_userId tx) = Some u
               \<and> numAdd (balance u) (amount tx) = Some b
               \<and> users (snd (depositCalls e s i cs)) =
                   map (\<lambda>d. if u_id d = t_userId tx then u\<lparr>balance := b\<rparr> else d) (users s)))"
proof (intro conjI impI)
  assume "t_status tx = completed \<or> t_status tx = failed"
  then show "\<exists>m. confirmDeposit e s i = (Status 400 m, s)"
    using tx by (auto simp: confirmDeposit_def Let_def)
next
  assume "t_status tx = completed \<or> t_status tx = failed"
  then show "\<exists>m. rejectDeposit e s i reason = (Status 400 m, s)"
    using tx by (auto simp: rejectDeposit_def Let_def)
next
  show "users (snd (depositCalls e s i cs)) = users s
          \<or> (\<exists>u b. findUser s (t_userId tx) = Some u
               \<and> numAdd (balance u) (amount tx) = Some b
               \<and> users (snd (depositCalls e s i cs)) =
                   map (\<lambda>d. if u_id d = t_userId tx then u\<lparr>balance := b\<rparr> else d) (users s))"
  proof (cases "t_type tx = deposit \<and> t_status tx = pending")
    case False
    then have "snd (depositCalls e s i cs) = s"
      using depositCalls_refused [OF tx] by blast
    then show ?thesis by simp
  next
    case True
    show ?thesis
    proof (cases cs)
      case Nil
      then show ?thesis by simp
    next
      case (Cons c rest)
      from depositCall_settles [of s i tx e c] tx True
      obtain tx' where "findTransaction (snd (depositCall e s i c)) i = Some tx'"
        "t_status tx' \<noteq> pending" by blast
      then have "snd (depositCalls e (snd (depositCall e s i c)) i rest) = snd (depositCall e s i c)"
        using depositCalls_refused by blast
      then have "snd (depositCalls e s i cs) = snd (depositCall e s i c)"
        using Cons by (simp add: split_beta)
      then show ?thesis
        using depositCall_users [OF tx, of e c] by simp
    qed
  qed
qed

theorem deposit_settled_once_witness:
  "(\<exists>m. confirmDeposit sampleEnv sampleDb ''d2'' = (Status 400 m, sampleDb))
   \<and> (\<exists>m. rejectDeposit sampleEnv sampleDb ''d2'' None = (Status 400 m, sampleDb))
   \<and> users (snd (depositCalls sampleEnv sampleDb ''d1''
                     [ConfirmDeposit, ConfirmDeposit, RejectDeposit None]))
        = [amal\<lparr>balance := Finite 65\<rparr>, bilal]"
proof -
  have h1: "findTransaction sampleDb ''d2'' = Some (depositTransaction ''d2'' completed)"
    by (simp add: sample_defs)
  have h2: "t_status (depositTransaction ''d2'' completed) = completed"
    by (simp add: depositTransaction_def)
  have k1: "findTransaction sampleDb ''d1'' = Some (depositTransaction ''d1'' pending)"
    by (simp add: sample_defs)
  have k2: "findUser sampleDb (t_userId (depositTransaction ''d1'' pending)) = Some amal"
    by (simp add: sample_defs)
  have k3: "users sampleDb = [amal, bilal]"
    by (simp add: sampleDb_def)
  have k4: "t_userId (depositTransaction ''d1'' pending) = ''u1''"
    "amount (depositTransaction ''d1'' pending) = Finite 15"
    by (simp_all add: depositTransaction_def)
  have k5: "u_id amal = ''u1''" "u_id bilal = ''u2''" "balance amal = Finite 50"
    by (simp_all add: amal_def bilal_def)
  show ?thesis
    using deposit_settled_once [OF h1, of sampleEnv None "[]"] h2
      deposit_settled_once [OF k1, of sampleEnv None "[ConfirmDeposit, ConfirmDeposit, RejectDeposit None]"]
      k2
    by (simp add: k3 k4 k5 round_65)
       (simp add: depositCall_def confirmDeposit_def rejectDeposit_def Let_def db_ops
          sample_defs round_65)
qed

subsection \<open>Provider orders\<close>

lemma sweepMerge_fields:
  "o_id (sweepMerge e x st new) = o_id x"
  "userId (sweepMerge e x st new) = userId x"
  "service (sweepMerge e x st new) = service x"
  "provider (sweepMerge e x st new) = provider x"
  "link (sweepMerge e x st new) = link x"
  "status (sweepMerge e x st new) = new"
  by (simp_all add: sweepMerge_def Let_def split: option.splits)



lemma syncTry_changed:
  assumes "secsers_status e pid = Inr (Some st)" "st_status st = Some new"
    "new \<noteq> []" "new \<noteq> status x" "validateOrder x = None"
    "\<not> castFails e (st_start_count st)" "\<not> castFails e (st_remains st)"
  shows "\<exists>s'. (syncTry e s x pid = Inr s' \<or> syncTry e s x pid = Inl (MailError, s'))
           \<and> orders s' = map (\<lambda>d. if o_id d = o_id x then sweepMerge e x st new else d) (orders s)
           \<and> users s' = users s \<and> transactions s' = transactions s
           \<and> notifications s' = notifications s @
                (case findUser s (userId x) of
                   None \<Rightarrow> []
                 | Some u \<Rightarrow> [\<lparr>n_userId = userId x,
                               title = ''Order #'' @ o_id x @ '' status updated'',
                               msg = SweepStatusMsg (service x) (status x) new\<rparr>])"
proof -
  have v: "validateOrder (sweepMerge e x st new) = None"
    using assms(5) validateOrder_cong [of "sweepMerge e x st new" x]
    by (simp add: sweepMerge_fields)
  show ?thesis
  proof (cases "findUser s (userId x)")
    case None
    then show ?thesis
      using assms v
      by (simp add: syncTry_def saveMerged_def saveOrder_def Let_def sweepMerge_fields
          findUser_def db_ops)
  next
    case (Some u)
    then have "u_id u = userId x" by (rule findUser_id)
    then show ?thesis
      using assms v Some
      by (simp add: syncTry_def saveMerged_def saveOrder_def Let_def sweepMerge_fields
          findUser_def db_ops)
  qed
qed

lemma syncOrder_changed:
  assumes "providerOrder x = Some pid" "pid \<noteq> Finite 0"
    "secsers_status e pid = Inr (Some st)" "st_status st = Some new"
    "new \<noteq> []" "new \<noteq> status x" "validateOrder x = None"
    "\<not> castFails e (st_start_count st)" "\<not> castFails e (st_remains st)"
  shows "orders (syncOrder e s x) =
           map (\<lambda>d. if o_id d = o_id x then sweepMerge e x st new else d) (orders s)"
    and "notifications (syncOrder e s x) = notifications s @
                (case findUser s (userId x) of
                   None \<Rightarrow> []
                 | Some u \<Rightarrow> [\<lparr>n_userId = userId x,
                               title = ''Order #'' @ o_id x @ '' status updated'',
                               msg = SweepStatusMsg (service x) (status x) new\<rparr>])"
  using syncTry_changed [OF assms(3-9), of s] assms(1,2)
  by (auto simp: syncOrder_def consoleLog_def)

lemma syncOrder_failed:
  assumes "providerOrder x = Some pid" "pid \<noteq> Finite 0" "secsers_status e pid = Inl err"
  shows "syncOrder e s x = consoleLog s (OrderUpdateFailed (o_id x) err)"
  using assms by (simp add: syncOrder_def syncTry_def)





text \<open>The admin's refresh creates no notification on any path.\<close>

lemma adminRefresh_notifications:
  "notifications (snd (adminRefresh e s i)) = notifications s"
  by (auto simp: adminRefresh_def saveOrder_def Let_def db_ops
      split: option.splits sum.splits)











lemma syncOrder_other:
  assumes "j \<noteq> o_id x"
  shows "findOrder (syncOrder e s x) j = findOrder s j"
  using assms
  by (auto simp: syncOrder_def syncTry_def saveMerged_def saveOrder_def Let_def db_ops
      findOrder_def find_key_replace sweepMerge_fields
      split: option.splits sum.splits if_splits)

lemma syncOrder_console:
  "set (console s) \<subseteq> set (console (syncOrder e s x))"
  by (auto simp: syncOrder_def syncTry_def saveMerged_def saveOrder_def Let_def db_ops
      split: option.splits sum.splits if_splits)

lemma syncLoop_other:
  "j \<notin> o_id ` set xs \<Longrightarrow> findOrder (syncLoop e s xs) j = findOrder s j"
  by (induction xs arbitrary: s) (auto simp: syncOrder_other)

lemma syncLoop_console:
  "set (console s) \<subseteq> set (console (syncLoop e s xs))"
proof (induction xs arbitrary: s)
  case Nil
  show ?case by simp
next
  case (Cons x xs)
  have "set (console s) \<subseteq> set (console (syncOrder e s x))" by (rule syncOrder_console)
  also have "\<dots> \<subseteq> set (console (syncLoop e (syncOrder e s x) xs))" by (rule Cons.IH)
  finally show ?case by simp
qed

lemma syncLoop_updated:
  assumes "distinct (map o_id xs)" "x \<in> set xs" "findOrder s (o_id x) \<noteq> None"
    and c: "providerOrder x = Some pid" "pid \<noteq> Finite 0"
      "secsers_status e pid = Inr (Some st)" "st_status st = Some new"
      "new \<noteq> []" "new \<noteq> status x" "validateOrder x = None"
      "\<not> castFails e (st_start_count st)" "\<not> castFails e (st_remains st)"
  shows "findOrder (syncLoop e s xs) (o_id x) = Some (sweepMerge e x st new)"
  using assms(1-3)
proof (induction xs arbitrary: s)
  case Nil
  then show ?case by simp
next
  case (Cons y ys)
  show ?case
  proof (cases "x = y")
    case True
    have "o_id x \<notin> o_id ` set ys" using Cons.prems(1) True by auto
    then have "findOrder (syncLoop e (syncOrder e s x) ys) (o_id x) =
                 findOrder (syncOrder e s x) (o_id x)"
      by (rule syncLoop_other)
    also have "\<dots> = Some (sweepMerge e x st new)"
      using syncOrder_changed(1) [OF c, of s] Cons.prems(3)
      by (auto simp: findOrder_def find_key_replace sweepMerge_fields)
    finally show ?thesis using True by simp
  next
    case False
    then have mem: "x \<in> set ys" using Cons.prems(2) by simp
    then have "o_id x \<in> o_id ` set ys" by (rule imageI)
    then have ne: "o_id x \<noteq> o_id y" using Cons.prems(1) by auto
    have "findOrder (syncOrder e s y) (o_id x) \<noteq> None"
      using Cons.prems(3) syncOrder_other [OF ne, of e s] by simp
    then have "findOrder (syncLoop e (syncOrder e s y) ys) (o_id x) = Some (sweepMerge e x st new)"
      using Cons.IH mem Cons.prems(1) by simp
    then show ?thesis by simp
  qed
qed

lemma syncLoop_failed:
  assumes "distinct (map o_id xs)" "x \<in> set xs" "findOrder s (o_id x) = Some x"
    and c: "providerOrder x = Some pid" "pid \<noteq> Finite 0" "secsers_status e pid = Inl err"
  shows "findOrder (syncLoop e s xs) (o_id x) = Some x
       \<and> OrderUpdateFailed (o_id x) err \<in> set (console (syncLoop e s xs))"
  using assms(1-3)
proof (induction xs arbitrary: s)
  case Nil
  then show ?case by simp
next
  case (Cons y ys)
  show ?case
  proof (cases "x = y")
    case True
    have step: "syncOrder e s x = consoleLog s (OrderUpdateFailed (o_id x) err)"
      using c by (rule syncOrder_failed)
    have "o_id x \<notin> o_id ` set ys" using Cons.prems(1) True by auto
    then have "findOrder (syncLoop e (syncOrder e s x) ys) (o_id x) =
                 findOrder (syncOrder e s x) (o_id x)"
      by (rule syncLoop_other)
    also have "\<dots> = Some x"
      using step Cons.prems(3) by (simp add: findOrder_def consoleLog_def)
    finally have a: "findOrder (syncLoop e (syncOrder e s x) ys) (o_id x) = Some x" .
    have "OrderUpdateFailed (o_id x) err \<in> set (console (syncOrder e s x))"
      using step by (simp add: consoleLog_def)
    then have "OrderUpdateFailed (o_id x) err \<in> set (console (syncLoop e (syncOrder e s x) ys))"
      using syncLoop_console by blast
    with a show ?thesis using True by simp
  next
    case False
    then have mem: "x \<in> set ys" using Cons.prems(2) by simp
    then have "o_id x \<in> o_id ` set ys" by (rule imageI)
    then have ne: "o_id x \<noteq> o_id y" using Cons.prems(1) by auto
    have "findOrder (syncOrder e s y) (o_id x) = Some x"
      using Cons.prems(3) syncOrder_other [OF ne, of e s] by simp
    then show ?thesis
      using Cons.IH mem Cons.prems(1) by simp
  qed
qed

text \<open>
  Claim C6. In one run of the scheduled job over a database whose orders have distinct
  ids, take any open order with a provider id. The job itself throws nothing. If the
  provider call for that order fails, the order stays as it was and the failure is on
  the console; if the provider reports a non-empty status different from the stored
  one (with numeric \<^verbatim>\<open>start_count\<close> and \<^verbatim>\<open>remains\<close>, for an order that passes the
  schema's validation), the order is stored with the reply merged in at the end of the
  run. Neither depends on what happens to the other orders of the run: a failure for
  one order stops no update of another.
\<close>

theorem sweep_continues_after_failure:
  assumes ids: "distinct (map o_id (orders s))"
    and opn: "ord \<in> set (openOrders s)"
    and pid: "providerOrder ord = Some pid" "pid \<noteq> Finite 0"
  shows "fst (orderSyncJob e s) = None
       \<and> (\<forall>err. secsers_status e pid = Inl err \<longrightarrow>
             findOrder (snd (orderSyncJob e s)) (o_id ord) = Some ord
           \<and> OrderUpdateFailed (o_id ord) err \<in> set (console (snd (orderSyncJob e s))))
       \<and> (\<forall>st new. secsers_status e pid = Inr (Some st) \<and> st_status st = Some new
              \<and> new \<noteq> [] \<and> new \<noteq> status ord \<and> validateOrder ord = None
              \<and> \<not> castFails e (st_start_count st) \<and> \<not> castFails e (st_remains st) \<longrightarrow>
             findOrder (snd (orderSyncJob e s)) (o_id ord) = Some (sweepMerge e ord st new))"
proof -
  let ?s0 = "consoleLog s SyncStarted"
  have o0: "orders ?s0 = orders s" by (simp add: consoleLog_def)
  have open0: "openOrders ?s0 = openOrders s" by (simp add: openOrders_def o0)
  have d: "distinct (map o_id (openOrders s))"
    using ids by (simp add: openOrders_def distinct_map_filter)
  have "ord \<in> set (orders s)" using opn by (simp add: openOrders_def)
  then have here: "findOrder ?s0 (o_id ord) = Some ord"
    using ids by (simp add: findOrder_def o0 find_distinct_key)
  have job: "snd (orderSyncJob e s) = syncLoop e ?s0 (openOrders s)"
    by (simp add: orderSyncJob_def Let_def open0)
  have "fst (orderSyncJob e s) = None"
    by (simp add: orderSyncJob_def Let_def)
  moreover have "\<forall>err. secsers_status e pid = Inl err \<longrightarrow>
             findOrder (snd (orderSyncJob e s)) (o_id ord) = Some ord
           \<and> OrderUpdateFailed (o_id ord) err \<in> set (console (snd (orderSyncJob e s)))"
    using syncLoop_failed [OF d opn here pid] job by simp
  moreover have "\<forall>st new. secsers_status e pid = Inr (Some st) \<and> st_status st = Some new
              \<and> new \<noteq> [] \<and> new \<noteq> status ord \<and> validateOrder ord = None
              \<and> \<not> castFails e (st_start_count st) \<and> \<not> castFails e (st_remains st) \<longrightarrow>
             findOrder (snd (orderSyncJob e s)) (o_id ord) = Some (sweepMerge e ord st new)"
    using syncLoop_updated [OF d opn _ pid] here job by simp
  ultimately show ?thesis by blast
qed

theorem sweep_continues_after_failure_witness:
  "fst (orderSyncJob sampleEnv sampleDb) = None
   \<and> findOrder (snd (orderSyncJob sampleEnv sampleDb)) ''p1'' =
       Some ((providerOrderDoc ''p1'' 999)\<lparr>status := ''Completed'', charge := Some ''1.23''\<rparr>)
   \<and> findOrder (snd (orderSyncJob sampleEnv sampleDb)) ''p2'' = Some (providerOrderDoc ''p2'' 1000)
   \<and> OrderUpdateFailed ''p2'' (ProviderError ''timeout'')
       \<in> set (console (snd (orderSyncJob sampleEnv sampleDb)))
   \<and> findOrder (snd (orderSyncJob sampleEnv sampleDb)) ''p3'' =
       Some ((providerOrderDoc ''p3'' 1001)\<lparr>status := ''In progress''\<rparr>)"
proof -
  have d: "distinct (map o_id (orders sampleDb))"
    by (simp add: sampleDb_def manualOrder_def providerOrderDoc_def)
  have opn: "providerOrderDoc ''p1'' 999 \<in> set (openOrders sampleDb)"
    "providerOrderDoc ''p2'' 1000 \<in> set (openOrders sampleDb)"
    "providerOrderDoc ''p3'' 1001 \<in> set (openOrders sampleDb)"
    by (simp_all add: openOrders_def sampleDb_def manualOrder_def providerOrderDoc_def)
  have pids: "providerOrder (providerOrderDoc ''p1'' 999) = Some (Finite 999)"
    "providerOrder (providerOrderDoc ''p2'' 1000) = Some (Finite 1000)"
    "providerOrder (providerOrderDoc ''p3'' 1001) = Some (Finite 1001)"
    by (simp_all add: providerOrderDoc_def)
  have nz: "Finite 999 \<noteq> Finite 0" "Finite 1000 \<noteq> Finite 0" "Finite 1001 \<noteq> Finite 0"
    by simp_all
  have r1: "secsers_status sampleEnv (Finite 999) = Inr (Some (sampleReply ''Completed'' (Some ''1.23'') None))
      \<and> st_status (sampleReply ''Completed'' (Some ''1.23'') None) = Some ''Completed''
      \<and> ''Completed'' \<noteq> [] \<and> ''Completed'' \<noteq> status (providerOrderDoc ''p1'' 999)
      \<and> validateOrder (providerOrderDoc ''p1'' 999) = None
      \<and> \<not> castFails sampleEnv (st_start_count (sampleReply ''Completed'' (Some ''1.23'') None))
      \<and> \<not> castFails sampleEnv (st_remains (sampleReply ''Completed'' (Some ''1.23'') None))"
    by (simp add: sampleEnv_def sampleReply_def providerOrderDoc_def validateOrder_def
        truthy_def castFails_def)
  have r2: "secsers_status sampleEnv (Finite 1000) = Inl (ProviderError ''timeout'')"
    by (simp add: sampleEnv_def)
  have r3: "secsers_status sampleEnv (Finite 1001) = Inr (Some (sampleReply ''In progress'' None None))
      \<and> st_status (sampleReply ''In progress'' None None) = Some ''In progress''
      \<and> ''In progress'' \<noteq> [] \<and> ''In progress'' \<noteq> status (providerOrderDoc ''p3'' 1001)
      \<and> validateOrder (providerOrderDoc ''p3'' 1001) = None
      \<and> \<not> castFails sampleEnv (st_start_count (sampleReply ''In progress'' None None))
      \<and> \<not> castFails sampleEnv (st_remains (sampleReply ''In progress'' None None))"
    by (simp add: sampleEnv_def sampleReply_def providerOrderDoc_def validateOrder_def
        truthy_def castFails_def)
  have m1: "sweepMerge sampleEnv (providerOrderDoc ''p1'' 999)
              (sampleReply ''Completed'' (Some ''1.23'') None) ''Completed'' =
            (providerOrderDoc ''p1'' 999)\<lparr>status := ''Completed'', charge := Some ''1.23''\<rparr>"
    by (simp add: sweepMerge_def sampleReply_def providerOrderDoc_def truthy_def
        assignNumber_def Let_def)
  have m3: "sweepMerge sampleEnv (providerOrderDoc ''p3'' 1001)
              (sampleReply ''In progress'' None None) ''In progress'' =
            (providerOrderDoc ''p3'' 1001)\<lparr>status := ''In progress''\<rparr>"
    by (simp add: sweepMerge_def sampleReply_def providerOrderDoc_def truthy_def
        assignNumber_def Let_def)
  have i: "o_id (providerOrderDoc ''p1'' 999) = ''p1''" "o_id (providerOrderDoc ''p2'' 1000) = ''p2''"
    "o_id (providerOrderDoc ''p3'' 1001) = ''p3''"
    by (simp_all add: providerOrderDoc_def)
  from sweep_continues_after_failure [OF d opn(1) pids(1) nz(1), of sampleEnv] r1
  have a: "fst (orderSyncJob sampleEnv sampleDb) = None"
    "findOrder (snd (orderSyncJob sampleEnv sampleDb)) ''p1'' =
       Some ((providerOrderDoc ''p1'' 999)\<lparr>status := ''Completed'', charge := Some ''1.23''\<rparr>)"
    unfolding i m1 [symmetric] by blast+
  from sweep_continues_after_failure [OF d opn(2) pids(2) nz(2), of sampleEnv] r2
  have b: "findOrder (snd (orderSyncJob sampleEnv sampleDb)) ''p2'' = Some (providerOrderDoc ''p2'' 1000)"
    "OrderUpdateFailed ''p2'' (ProviderError ''timeout'')
       \<in> set (console (snd (orderSyncJob sampleEnv sampleDb)))"
    unfolding i by blast+
  from sweep_continues_after_failure [OF d opn(3) pids(3) nz(3), of sampleEnv] r3
  have c: "findOrder (snd (orderSyncJob sampleEnv sampleDb)) ''p3'' =
       Some ((providerOrderDoc ''p3'' 1001)\<lparr>status := ''In progress''\<rparr>)"
    unfolding i m3 [symmetric] by blast
  from a b c show ?thesis by blast
qed

end
